theory Spec2Isabelle
  imports Complex_Main "HOL-Library.Product_Lexorder"
begin

section \<open>Python values used by the link generator\<close>

text \<open>
  The resolvers of \<^verbatim>\<open>link_generator.py\<close> take the bounding box of the area of interest as
  Python numbers: floats when they come from the GeoJSON bounds, ints or floats in the tables of
  the stand-alone scripts. Every finite float is a rational, the comparisons of Python between
  ints and floats are exact, and so is \<^verbatim>\<open>//\<close> on the values of a bounding box, so a coordinate is
  a \<^typ>\<open>real\<close> here. The rounding of a decimal literal to a float and of the float addition
  \<^verbatim>\<open>value + 9\<close> is not modelled; the inputs at which a property is shown to fail are integers
  or dyadic fractions, which a float holds exactly and where that sum is exact. Years, grid
  corners and parsed tile coordinates are Python ints: \<^typ>\<open>int\<close>.
\<close>

datatype py_error = ValueError | IndexError

section \<open>Closest available year\<close>

text \<open>
  \<^verbatim>\<open>min(available_years, key=lambda y: (abs(y - target_year), -y))\<close>: Python compares the key
  tuples lexicographically and \<^verbatim>\<open>min\<close> keeps the first element whose key is minimal.
\<close>

definition year_key :: "int \<Rightarrow> int \<Rightarrow> int \<times> int" where
  "year_key target_year y = (\<bar>y - target_year\<bar>, - y)"

fun py_min_key :: "('a \<Rightarrow> 'k::linorder) \<Rightarrow> 'a \<Rightarrow> 'a list \<Rightarrow> 'a" where
  "py_min_key key best [] = best"
| "py_min_key key best (x # xs) = py_min_key key (if key x < key best then x else best) xs"

definition find_closest_year :: "int \<Rightarrow> int list \<Rightarrow> int option" where
  "find_closest_year target_year available_years =
     (case available_years of
        [] \<Rightarrow> None
      | y # ys \<Rightarrow> Some (py_min_key (year_key target_year) y ys))"

text \<open>
  The loop of \<^verbatim>\<open>__main__\<close> that snaps a requested year: \<^verbatim>\<open>SOURCE_YEAR_AVAILABILITY.get(source)\<close>
  is \<open>None\<close> for a source without an entry, and the guard
  \<^verbatim>\<open>if available_years and year not in available_years\<close> calls \<^verbatim>\<open>find_closest_year\<close> only
  on a non-empty list that lacks the year.
\<close>

definition resolve_year :: "int \<Rightarrow> int list option \<Rightarrow> int option" where
  "resolve_year year available_years =
     (case available_years of
        None \<Rightarrow> Some year
      | Some ys \<Rightarrow>
          if ys \<noteq> [] \<and> year \<notin> set ys then find_closest_year year ys else Some year)"

section \<open>Python built-ins\<close>

text \<open>
  \<^verbatim>\<open>range(start, stop, step)\<close>. Every call in the source has the constant step 10 or -10;
  a step of 0, where Python raises, does not occur and gives the empty list here.
\<close>

function range_up :: "int \<Rightarrow> int \<Rightarrow> int \<Rightarrow> int list" where
  "range_up start stop step =
     (if 0 < step \<and> start < stop then start # range_up (start + step) stop step else [])"
  by pat_completeness auto
termination
  by (relation "measure (\<lambda>(start, stop, step). nat (stop - start))") auto

declare range_up.simps [simp del]

function range_down :: "int \<Rightarrow> int \<Rightarrow> int \<Rightarrow> int list" where
  "range_down start stop step =
     (if step < 0 \<and> stop < start then start # range_down (start + step) stop step else [])"
  by pat_completeness auto
termination
  by (relation "measure (\<lambda>(start, stop, step). nat (start - stop))") auto

declare range_down.simps [simp del]

definition py_range :: "int \<Rightarrow> int \<Rightarrow> int \<Rightarrow> int list" where
  "py_range start stop step =
     (if 0 < step then range_up start stop step else range_down start stop step)"

text \<open>\<^verbatim>\<open>int(x)\<close> on a number truncates toward zero.\<close>

definition py_int :: "real \<Rightarrow> int" where
  "py_int x = (if 0 \<le> x then \<lfloor>x\<rfloor> else \<lceil>x\<rceil>)"

text \<open>\<^verbatim>\<open>str(n)\<close> for an int, and the format specification \<^verbatim>\<open>:0>w\<close> (pad on the left with 0).\<close>

definition digit_char :: "nat \<Rightarrow> char" where
  "digit_char d = ''0123456789'' ! d"

function str_nat :: "nat \<Rightarrow> string" where
  "str_nat n = (if n < 10 then [digit_char n] else str_nat (n div 10) @ [digit_char (n mod 10)])"
  by pat_completeness auto
termination
  by (relation "measure id") auto

declare str_nat.simps [simp del]

definition str_int :: "int \<Rightarrow> string" where
  "str_int i = (if i < 0 then CHR ''-'' # str_nat (nat (- i)) else str_nat (nat i))"

definition pad_left :: "nat \<Rightarrow> char \<Rightarrow> string \<Rightarrow> string" where
  "pad_left w c s = replicate (w - length s) c @ s"

text \<open>\<^verbatim>\<open>s.endswith(suffix)\<close> and \<^verbatim>\<open>s.split(sep)\<close> for a one-character separator.\<close>

definition endswith :: "string \<Rightarrow> string \<Rightarrow> bool" where
  "endswith s suffix \<longleftrightarrow>
     length suffix \<le> length s \<and> drop (length s - length suffix) s = suffix"

fun split_on :: "char \<Rightarrow> string \<Rightarrow> string list" where
  "split_on sep [] = [[]]"
| "split_on sep (x # xs) =
     (if x = sep then [] # split_on sep xs
      else (case split_on sep xs of
              [] \<Rightarrow> [[x]]
            | f # fs \<Rightarrow> (x # f) # fs))"

text \<open>
  \<^verbatim>\<open>int(s)\<close> on a string: white space (tab, line feed, vertical tab, form feed, carriage
  return, space) is stripped on both sides, one sign is allowed, and at
  least one decimal digit must follow; anything else raises \<open>ValueError\<close>. Python also accepts
  single underscores between digits; the strings parsed here are fields of a split at
  underscores, which hold none. Names are taken to be ASCII.
\<close>

definition is_py_space :: "char \<Rightarrow> bool" where
  "is_py_space c \<longleftrightarrow>
     c \<in> set [CHR 0x09, CHR 0x0A, CHR 0x0B, CHR 0x0C, CHR 0x0D, CHR 0x20]"

definition py_strip :: "string \<Rightarrow> string" where
  "py_strip s = rev (dropWhile is_py_space (rev (dropWhile is_py_space s)))"

definition digit_val :: "char \<Rightarrow> nat option" where
  "digit_val c = map_of (zip ''0123456789'' [0, 1, 2, 3, 4, 5, 6, 7, 8, 9]) c"

fun digits_val :: "nat \<Rightarrow> string \<Rightarrow> nat option" where
  "digits_val acc [] = Some acc"
| "digits_val acc (c # cs) =
     (case digit_val c of
        None \<Rightarrow> None
      | Some d \<Rightarrow> digits_val (10 * acc + d) cs)"

definition py_int_of_string :: "string \<Rightarrow> py_error + int" where
  "py_int_of_string s =
     (let t = py_strip s;
          negative = (case t of [] \<Rightarrow> False | c # _ \<Rightarrow> c = CHR ''-'');
          ds = (case t of
                  [] \<Rightarrow> []
                | c # cs \<Rightarrow> if c = CHR ''-'' \<or> c = CHR ''+'' then cs else t)
      in if ds = [] then Inl ValueError
         else (case digits_val 0 ds of
                 None \<Rightarrow> Inl ValueError
               | Some n \<Rightarrow> Inr (if negative then - int n else int n)))"

section \<open>Grid quantizers\<close>

text \<open>
  \<^verbatim>\<open>adjust_to_nearest_10(value, is_min)\<close> at module level (longitude only), and the nested
  functions of the same name in \<^verbatim>\<open>get_links_from_glc_2015\<close> (also in
  \<^verbatim>\<open>2015/Download_FROM_GLC_2015.py\<close>) and in \<^verbatim>\<open>get_links_gfc_treecover2000\<close>.
\<close>

definition adjust_to_nearest_10 :: "real \<Rightarrow> bool \<Rightarrow> real" where
  "adjust_to_nearest_10 v is_min =
     (if is_min then max (- 180) (of_int \<lfloor>v / 10\<rfloor> * 10)
      else min 180 (of_int \<lfloor>(v + 9) / 10\<rfloor> * 10))"

definition adjust_to_nearest_10_2015 :: "real \<Rightarrow> bool \<Rightarrow> bool \<Rightarrow> real" where
  "adjust_to_nearest_10_2015 v is_latitude is_min =
     (if is_latitude then
        (if is_min then max (- 60) (of_int \<lfloor>v / 10\<rfloor> * 10)
         else min 80 (of_int \<lfloor>(v + 9) / 10\<rfloor> * 10))
      else
        (if is_min then max (- 180) (of_int \<lfloor>v / 10\<rfloor> * 10)
         else min 180 (of_int \<lfloor>(v + 9) / 10\<rfloor> * 10)))"

definition adjust_to_nearest_10_treecover :: "real \<Rightarrow> bool \<Rightarrow> bool \<Rightarrow> real" where
  "adjust_to_nearest_10_treecover v is_latitude is_min =
     (if is_latitude then
        (if is_min then max (- 50) (of_int \<lfloor>v / 10\<rfloor> * 10)
         else min 80 (of_int \<lfloor>(v + 9) / 10\<rfloor> * 10))
      else
        (if is_min then max (- 180) (of_int \<lfloor>v / 10\<rfloor> * 10)
         else min 180 (of_int \<lfloor>(v + 9) / 10\<rfloor> * 10)))"

text \<open>\<^verbatim>\<open>_get_left_decval(val)\<close> of the GSW resolver.\<close>

definition get_left_decval :: "real \<Rightarrow> int" where
  "get_left_decval v =
     (let val = py_int v
      in if val mod 10 = 0 then val
         else if val > 0 then \<bar>val\<bar> div 10 * 10
         else - (1 + \<bar>val\<bar> div 10) * 10)"

section \<open>GLC\_FCS30D\_UNOFFICIAL\<close>

definition ew_label :: "int \<Rightarrow> string" where
  "ew_label n = (if n \<ge> 0 then ''E'' else ''W'') @ str_nat (nat \<bar>n\<bar>)"

definition glc_fcs30d_link :: "int \<Rightarrow> string" where
  "glc_fcs30d_link lon =
     (let (left_left_top, right_left_top) =
            (if \<bar>lon\<bar> < \<bar>lon + 5\<bar> then (lon, lon + 5) else (lon + 5, lon))
      in ''https://zenodo.org/records/8239305/files/GLC_FCS30D_19852022maps_''
         @ ew_label left_left_top @ ''-'' @ ew_label right_left_top @ ''.zip?download=1'')"

definition get_links_glc_fcs30d_unofficial :: "real \<Rightarrow> real \<Rightarrow> real \<Rightarrow> real \<Rightarrow> string list" where
  "get_links_glc_fcs30d_unofficial min_lat max_lat min_lon max_lon =
     (let lon_min = adjust_to_nearest_10 min_lon True;
          lon_max = adjust_to_nearest_10 max_lon False
      in map glc_fcs30d_link (py_range (py_int lon_min) (py_int lon_max + 1) 10))"

section \<open>Tile labels of FROM\_GLC 2015 and GFC\_TreeCover2000\<close>

definition lat_label :: "int \<Rightarrow> string" where
  "lat_label lat = pad_left 2 CHR ''0'' (str_nat (nat \<bar>lat\<bar>)) @ (if lat \<ge> 0 then ''N'' else ''S'')"

definition lon_label :: "int \<Rightarrow> string" where
  "lon_label lon = pad_left 3 CHR ''0'' (str_nat (nat \<bar>lon\<bar>)) @ (if lon \<ge> 0 then ''E'' else ''W'')"

section \<open>GFC\_TreeCover2000\<close>

definition treecover_link :: "int \<Rightarrow> int \<Rightarrow> string" where
  "treecover_link lat lon =
     ''https://storage.googleapis.com/earthenginepartners-hansen/GFC-2023-v1.11/Hansen_GFC-2023-v1.11_treecover2000_''
     @ lat_label lat @ ''_'' @ lon_label lon @ ''.tif''"

definition get_links_gfc_treecover2000 :: "real \<Rightarrow> real \<Rightarrow> real \<Rightarrow> real \<Rightarrow> string list" where
  "get_links_gfc_treecover2000 min_lat max_lat min_lon max_lon =
     (let lat_min = adjust_to_nearest_10_treecover min_lat True True;
          lat_max = adjust_to_nearest_10_treecover max_lat True False;
          lon_min = adjust_to_nearest_10_treecover min_lon False True;
          lon_max = adjust_to_nearest_10_treecover max_lon False False
      in concat (map (\<lambda>lat. map (\<lambda>lon. treecover_link lat lon)
                                  (py_range (py_int lon_min) (py_int lon_max) 10))
                     (py_range (py_int lat_max) (py_int lat_min) (- 10))))"

section \<open>Catalog entries and FROM\_GLC 2015\<close>

text \<open>
  An element of the metadata snapshot: a JSON object with the keys \<^verbatim>\<open>id\<close> and \<^verbatim>\<open>name\<close>. The id
  is held as the text that \<^verbatim>\<open>str.format\<close> puts into the link.
\<close>

record entry =
  entry_id :: string
  entry_name :: string

definition tile_name_2015 :: "int \<Rightarrow> int \<Rightarrow> string" where
  "tile_name_2015 lat lon = lon_label lon @ lat_label lat @ ''.tif''"

text \<open>The grid corners of the two nested loops, in the order of the enumeration.\<close>

definition tile_corners_2015 :: "real \<Rightarrow> real \<Rightarrow> real \<Rightarrow> real \<Rightarrow> (int \<times> int) list" where
  "tile_corners_2015 min_lat max_lat min_lon max_lon =
     (let lat_min = adjust_to_nearest_10_2015 min_lat True True;
          lat_max = adjust_to_nearest_10_2015 max_lat True False;
          lon_min = adjust_to_nearest_10_2015 min_lon False True;
          lon_max = adjust_to_nearest_10_2015 max_lon False False
      in concat (map (\<lambda>lat. map (\<lambda>lon. (lat, lon))
                                  (py_range (py_int lon_min) (py_int lon_max) 10))
                     (py_range (py_int lat_max) (py_int lat_min) (- 10))))"

text \<open>The inner \<^verbatim>\<open>for ... else\<close>: the first entry with the name gives the link, none gives nothing.\<close>

definition lookup_tile_2015 :: "entry list \<Rightarrow> string \<Rightarrow> string list" where
  "lookup_tile_2015 meta_data nm =
     (case find (\<lambda>ele. entry_name ele = nm) meta_data of
        Some ele \<Rightarrow> [''https://data-starcloud.pcl.ac.cn/api/en/resourceFile/download/3/'' @ entry_id ele]
      | None \<Rightarrow> [])"

definition get_links_from_glc_2015 ::
  "entry list \<Rightarrow> real \<Rightarrow> real \<Rightarrow> real \<Rightarrow> real \<Rightarrow> string list" where
  "get_links_from_glc_2015 meta_data min_lat max_lat min_lon max_lon =
     concat (map (\<lambda>(lat, lon). lookup_tile_2015 meta_data (tile_name_2015 lat lon))
                 (tile_corners_2015 min_lat max_lat min_lon max_lon))"

section \<open>FROM\_GLC 2017\<close>

text \<open>
  The test of the specification on a tile at \<open>(lat, lon)\<close>: one of the four corners
  \<open>(lat, lon)\<close>, \<open>(lat, lon + 2)\<close>, \<open>(lat + 2, lon)\<close>, \<open>(lat + 2, lon + 2)\<close> lies in the box.
\<close>

definition in_bbox :: "real \<Rightarrow> real \<Rightarrow> real \<Rightarrow> real \<Rightarrow> int \<Rightarrow> int \<Rightarrow> bool" where
  "in_bbox min_lat max_lat min_lon max_lon lat lon \<longleftrightarrow>
     min_lon \<le> of_int lon \<and> of_int lon \<le> max_lon \<and> min_lat \<le> of_int lat \<and> of_int lat \<le> max_lat"

definition four_variants :: "real \<Rightarrow> real \<Rightarrow> real \<Rightarrow> real \<Rightarrow> int \<Rightarrow> int \<Rightarrow> bool" where
  "four_variants min_lat max_lat min_lon max_lon lat lon \<longleftrightarrow>
     in_bbox min_lat max_lat min_lon max_lon lat lon
     \<or> in_bbox min_lat max_lat min_lon max_lon lat (lon + 2)
     \<or> in_bbox min_lat max_lat min_lon max_lon (lat + 2) lon
     \<or> in_bbox min_lat max_lat min_lon max_lon (lat + 2) (lon + 2)"

definition link_2017 :: "entry \<Rightarrow> string" where
  "link_2017 ele = ''https://data-starcloud.pcl.ac.cn/api/en/resourceFile/download/1/'' @ entry_id ele"

text \<open>
  \<^verbatim>\<open>link_generator.py\<close>, the body of the \<^verbatim>\<open>try\<close>:
  \<^verbatim>\<open>lat_str, lon_str = ele['name'].split('.')[0].split('_')[-2:]\<close> raises \<open>ValueError\<close> when the
  slice has fewer than two fields, then \<^verbatim>\<open>int(lat_str), int(lon_str)\<close>. A split is never
  empty (\<open>split_on_nonempty\<close> below), so \<^verbatim>\<open>[0]\<close> is its head.
\<close>

definition parse_lat_lon :: "string \<Rightarrow> py_error + (int \<times> int)" where
  "parse_lat_lon nm =
     (let fields = split_on CHR ''_'' (hd (split_on CHR ''.'' nm));
          last2 = drop (length fields - 2) fields
      in (case last2 of
            [lat_str, lon_str] \<Rightarrow>
              (case py_int_of_string lat_str of
                 Inl e \<Rightarrow> Inl e
               | Inr lat \<Rightarrow>
                   (case py_int_of_string lon_str of
                      Inl e \<Rightarrow> Inl e
                    | Inr lon \<Rightarrow> Inr (lat, lon)))
          | _ \<Rightarrow> Inl ValueError))"

text \<open>
  \<^verbatim>\<open>get_links_from_glc_2017\<close> of \<^verbatim>\<open>link_generator.py\<close>: \<^verbatim>\<open>except (ValueError, IndexError): continue\<close>
  skips an entry whose name does not parse; the only test is on \<open>(lat, lon)\<close> itself.
\<close>

fun get_links_from_glc_2017 :: "entry list \<Rightarrow> real \<Rightarrow> real \<Rightarrow> real \<Rightarrow> real \<Rightarrow> string list" where
  "get_links_from_glc_2017 [] min_lat max_lat min_lon max_lon = []"
| "get_links_from_glc_2017 (ele # meta_data) min_lat max_lat min_lon max_lon =
     (let rest = get_links_from_glc_2017 meta_data min_lat max_lat min_lon max_lon
      in if \<not> endswith (entry_name ele) ''.tif'' then rest
         else (case parse_lat_lon (entry_name ele) of
                 Inl ValueError \<Rightarrow> rest
               | Inl IndexError \<Rightarrow> rest
               | Inr (lat, lon) \<Rightarrow>
                   if min_lon \<le> of_int lon \<and> of_int lon \<le> max_lon
                      \<and> min_lat \<le> of_int lat \<and> of_int lat \<le> max_lat
                   then link_2017 ele # rest
                   else rest))"

text \<open>
  \<^verbatim>\<open>get_links_for_region\<close> of \<^verbatim>\<open>2017/Download_FROM_GLC_2017.py\<close>: the fields after the first are
  unpacked into exactly two names (\<^verbatim>\<open>split('_')[1:]\<close>), nothing catches an exception, and the
  test is on the four corners. The result is the list of links yielded and the exception that
  ended the generator, if any.
\<close>

definition parse_lat_lon_script :: "string \<Rightarrow> py_error + (int \<times> int)" where
  "parse_lat_lon_script nm =
     (case drop 1 (split_on CHR ''_'' (hd (split_on CHR ''.'' nm))) of
        [lat, lon] \<Rightarrow>
          (case py_int_of_string lat of
             Inl e \<Rightarrow> Inl e
           | Inr lat' \<Rightarrow>
               (case py_int_of_string lon of
                  Inl e \<Rightarrow> Inl e
                | Inr lon' \<Rightarrow> Inr (lat', lon')))
      | _ \<Rightarrow> Inl ValueError)"

fun get_links_for_region_2017 ::
  "entry list \<Rightarrow> real \<Rightarrow> real \<Rightarrow> real \<Rightarrow> real \<Rightarrow> string list \<times> py_error option" where
  "get_links_for_region_2017 [] min_lat max_lat min_lon max_lon = ([], None)"
| "get_links_for_region_2017 (ele # meta_data) min_lat max_lat min_lon max_lon =
     (if \<not> endswith (entry_name ele) ''.tif''
      then get_links_for_region_2017 meta_data min_lat max_lat min_lon max_lon
      else (case parse_lat_lon_script (entry_name ele) of
              Inl e \<Rightarrow> ([], Some e)
            | Inr (lat, lon) \<Rightarrow>
                (let (links, err) = get_links_for_region_2017 meta_data min_lat max_lat min_lon max_lon
                 in if (min_lon \<le> of_int lon \<and> of_int lon \<le> max_lon
                          \<and> min_lat \<le> of_int lat \<and> of_int lat \<le> max_lat)
                       \<or> (min_lon \<le> of_int (lon + 2) \<and> of_int (lon + 2) \<le> max_lon
                          \<and> min_lat \<le> of_int lat \<and> of_int lat \<le> max_lat)
                       \<or> (min_lon \<le> of_int lon \<and> of_int lon \<le> max_lon
                          \<and> min_lat \<le> of_int (lat + 2) \<and> of_int (lat + 2) \<le> max_lat)
                       \<or> (min_lon \<le> of_int (lon + 2) \<and> of_int (lon + 2) \<le> max_lon
                          \<and> min_lat \<le> of_int (lat + 2) \<and> of_int (lat + 2) \<le> max_lat)
                    then (link_2017 ele # links, err)
                    else (links, err))))"

text \<open>
  What each of the two resolvers yields for one entry, as a predicate: the name ends in
  \<^verbatim>\<open>.tif\<close>, it parses, and the resolver's own test on the coordinates holds.
\<close>

definition yields_2017 :: "real \<Rightarrow> real \<Rightarrow> real \<Rightarrow> real \<Rightarrow> entry \<Rightarrow> bool" where
  "yields_2017 min_lat max_lat min_lon max_lon ele \<longleftrightarrow>
     endswith (entry_name ele) ''.tif''
     \<and> (case parse_lat_lon (entry_name ele) of
          Inl e \<Rightarrow> False
        | Inr (lat, lon) \<Rightarrow> in_bbox min_lat max_lat min_lon max_lon lat lon)"

definition yields_2017_script :: "real \<Rightarrow> real \<Rightarrow> real \<Rightarrow> real \<Rightarrow> entry \<Rightarrow> bool" where
  "yields_2017_script min_lat max_lat min_lon max_lon ele \<longleftrightarrow>
     endswith (entry_name ele) ''.tif''
     \<and> (case parse_lat_lon_script (entry_name ele) of
          Inl e \<Rightarrow> False
        | Inr (lat, lon) \<Rightarrow> four_variants min_lat max_lat min_lon max_lon lat lon)"

section \<open>GFC\_FCS30D\<close>

text \<open>
  A box: an entry of \<^verbatim>\<open>predefined_bboxes\<close> (a dict with the keys \<^verbatim>\<open>min_lat\<close>, \<^verbatim>\<open>max_lat\<close>,
  \<^verbatim>\<open>min_lon\<close>, \<^verbatim>\<open>max_lon\<close>) or the \<^verbatim>\<open>box(min_lon, min_lat, max_lon, max_lat)\<close> made from one.
\<close>

record bbox =
  box_min_lat :: real
  box_max_lat :: real
  box_min_lon :: real
  box_max_lon :: real

text \<open>
  Modelled from the spec: \<^verbatim>\<open>shapely\<close>'s \<^verbatim>\<open>box(...).intersects(box(...))\<close> is not part of the
  repository; section 4.1 gives it as the standard rectangle intersection in which touching
  boundaries count as a match.
\<close>

definition box_intersects :: "bbox \<Rightarrow> bbox \<Rightarrow> bool" where
  "box_intersects a b \<longleftrightarrow>
     box_min_lon a \<le> box_max_lon b \<and> box_min_lon b \<le> box_max_lon a
     \<and> box_min_lat a \<le> box_max_lat b \<and> box_min_lat b \<le> box_max_lat a"

text \<open>The two \<^verbatim>\<open>print\<close> calls of the resolver, as a log.\<close>

datatype gfc_info = No_intersection int | Not_available int

definition gfc_fcs30d_link :: "int \<Rightarrow> string" where
  "gfc_fcs30d_link map_year =
     ''https://zenodo.org/records/10068479/files/GWL_FCS30_'' @ str_int map_year @ ''.zip?download=1''"

text \<open>The two local tables of \<^verbatim>\<open>get_links_gfc_fcs30d\<close>.\<close>

definition africa_historical :: bbox where
  "africa_historical =
     \<lparr>box_min_lat = 3.5, box_max_lat = 16.3, box_min_lon = 27, box_max_lon = 43.3\<rparr>"

definition africa_static :: bbox where
  "africa_static =
     \<lparr>box_min_lat = - 0.1, box_max_lat = 18.1, box_min_lon = 9.9, box_max_lon = 43.3\<rparr>"

definition predefined_bboxes :: "int \<rightharpoonup> bbox" where
  "predefined_bboxes =
     map_of [(2000, africa_historical), (2005, africa_historical), (2010, africa_historical),
             (2015, africa_historical), (2019, africa_static), (2022, africa_historical)]"

definition global_coverage_years :: "int list" where
  "global_coverage_years = [2000, 2005, 2010, 2015, 2019, 2020, 2022]"

definition get_links_gfc_fcs30d ::
  "int \<Rightarrow> real \<Rightarrow> real \<Rightarrow> real \<Rightarrow> real \<Rightarrow> string list \<times> gfc_info list" where
  "get_links_gfc_fcs30d year min_lat max_lat min_lon max_lon =
     (let map_year = (if year = 2024 then 2022 else year);
          user_aoi = \<lparr>box_min_lat = min_lat, box_max_lat = max_lat,
                      box_min_lon = min_lon, box_max_lon = max_lon\<rparr>
      in if map_year \<in> set global_coverage_years then ([gfc_fcs30d_link map_year], [])
         else (case predefined_bboxes map_year of
                 Some data_bbox \<Rightarrow>
                   if box_intersects user_aoi data_bbox then ([gfc_fcs30d_link map_year], [])
                   else ([], [No_intersection map_year])
               | None \<Rightarrow> ([], [Not_available map_year])))"

section \<open>Properties of the year resolver\<close>

lemma py_min_key_mem: "py_min_key key b xs \<in> set (b # xs)"
  by (induction xs arbitrary: b) auto

lemma py_min_key_le_best: "key (py_min_key key b xs) \<le> key b"
proof (induction xs arbitrary: b)
  case Nil
  show ?case by simp
next
  case (Cons x xs)
  have "key (py_min_key key (if key x < key b then x else b) xs)
          \<le> key (if key x < key b then x else b)"
    by (rule Cons.IH)
  also have "\<dots> \<le> key b" by (simp add: less_imp_le)
  finally show ?case by simp
qed

lemma py_min_key_least: "y \<in> set (b # xs) \<Longrightarrow> key (py_min_key key b xs) \<le> key y"
proof (induction xs arbitrary: b)
  case Nil
  then show ?case by simp
next
  case (Cons x xs)
  let ?b = "if key x < key b then x else b"
  have le: "key (py_min_key key ?b xs) \<le> key ?b" by (rule py_min_key_le_best)
  from Cons.prems consider "y = b" | "y = x" | "y \<in> set xs" by auto
  then show ?case
  proof cases
    case 1
    with le show ?thesis by (auto split: if_splits)
  next
    case 2
    with le show ?thesis by (auto split: if_splits)
  next
    case 3
    then have "y \<in> set (?b # xs)" by simp
    from Cons.IH [OF this] show ?thesis by simp
  qed
qed

lemma year_key_inj: "year_key t a = year_key t b \<Longrightarrow> a = b"
  by (simp add: year_key_def)

lemma year_key_le_iff:
  "year_key t r \<le> year_key t y \<longleftrightarrow> \<bar>r - t\<bar> < \<bar>y - t\<bar> \<or> (\<bar>r - t\<bar> = \<bar>y - t\<bar> \<and> y \<le> r)"
  by (auto simp: year_key_def less_eq_prod_def)

lemma find_closest_year_Some:
  assumes "ys \<noteq> []"
  obtains r where "find_closest_year t ys = Some r" "r \<in> set ys"
    "\<forall>y \<in> set ys. year_key t r \<le> year_key t y"
proof -
  from assms obtain z zs where ys: "ys = z # zs" by (cases ys) auto
  let ?r = "py_min_key (year_key t) z zs"
  have "find_closest_year t ys = Some ?r" by (simp add: ys find_closest_year_def)
  moreover have "?r \<in> set ys" unfolding ys by (rule py_min_key_mem)
  moreover have "\<forall>y \<in> set ys. year_key t ?r \<le> year_key t y"
    unfolding ys using py_min_key_least [of _ z zs "year_key t"] by blast
  ultimately show thesis by (rule that)
qed

text \<open>The result does not depend on the order or the multiplicity of the list's elements.\<close>

lemma find_closest_year_set:
  assumes "set ys = set zs"
  shows "find_closest_year t ys = find_closest_year t zs"
proof (cases "ys = []")
  case True
  with assms have "zs = []" by simp
  with True show ?thesis by simp
next
  case False
  with assms have nz: "zs \<noteq> []" by auto
  from False obtain r where r: "find_closest_year t ys = Some r" "r \<in> set ys"
    "\<forall>y \<in> set ys. year_key t r \<le> year_key t y" by (rule find_closest_year_Some)
  from nz obtain q where q: "find_closest_year t zs = Some q" "q \<in> set zs"
    "\<forall>y \<in> set zs. year_key t q \<le> year_key t y" by (rule find_closest_year_Some)
  from r q assms have "year_key t r \<le> year_key t q" "year_key t q \<le> year_key t r" by auto
  then have "year_key t r = year_key t q" by (rule antisym)
  then have "r = q" by (rule year_key_inj)
  with r q show ?thesis by simp
qed

text \<open>
  C2. For a non-empty list of available years, \<open>find_closest_year\<close> returns an element of the
  list whose pair (distance to the requested year, negated year) is minimal: no element is
  nearer, and an element at the same distance is not larger. If the requested year is in the
  list, it is the result. For the years 2000 and 2010, a request for 2005 gives 2010 and a
  request for 2003 gives 2000.
\<close>

theorem find_closest_year_spec:
  assumes "ys \<noteq> []"
  shows "(\<exists>r. find_closest_year t ys = Some r \<and> r \<in> set ys
            \<and> (\<forall>y \<in> set ys. \<bar>r - t\<bar> < \<bar>y - t\<bar> \<or> (\<bar>r - t\<bar> = \<bar>y - t\<bar> \<and> y \<le> r))
            \<and> (t \<in> set ys \<longrightarrow> r = t))
         \<and> find_closest_year 2005 [2000, 2010] = Some 2010
         \<and> find_closest_year 2003 [2000, 2010] = Some 2000"
proof -
  from assms obtain r where r: "find_closest_year t ys = Some r" "r \<in> set ys"
    "\<forall>y \<in> set ys. year_key t r \<le> year_key t y" by (rule find_closest_year_Some)
  have least: "\<forall>y \<in> set ys. \<bar>r - t\<bar> < \<bar>y - t\<bar> \<or> (\<bar>r - t\<bar> = \<bar>y - t\<bar> \<and> y \<le> r)"
    using r(3) by (simp add: year_key_le_iff)
  have "r = t" if "t \<in> set ys"
  proof -
    from least that have "\<bar>r - t\<bar> < \<bar>t - t\<bar> \<or> (\<bar>r - t\<bar> = \<bar>t - t\<bar> \<and> t \<le> r)" by blast
    then show ?thesis by simp
  qed
  with r least
  have general: "\<exists>r. find_closest_year t ys = Some r \<and> r \<in> set ys
           \<and> (\<forall>y \<in> set ys. \<bar>r - t\<bar> < \<bar>y - t\<bar> \<or> (\<bar>r - t\<bar> = \<bar>y - t\<bar> \<and> y \<le> r))
           \<and> (t \<in> set ys \<longrightarrow> r = t)"
    by blast
  have tie: "find_closest_year 2005 [2000, 2010] = Some 2010"
    by (simp add: find_closest_year_def year_key_def less_prod_def)
  have near: "find_closest_year 2003 [2000, 2010] = Some 2000"
    by (simp add: find_closest_year_def year_key_def less_prod_def)
  from general tie near show ?thesis by blast
qed

theorem find_closest_year_spec_witness:
  "find_closest_year 2004 [2000, 2005, 2010, 2015, 2019, 2020, 2024] = Some 2005"
proof -
  have ne: "[2000, 2005, 2010, 2015, 2019, 2020, 2024] \<noteq> ([] :: int list)" by simp
  from find_closest_year_spec [OF ne, of 2004]
  obtain r where r: "find_closest_year 2004 [2000, 2005, 2010, 2015, 2019, 2020, 2024] = Some r"
    and mem: "r \<in> set [2000, 2005, 2010, 2015, 2019, 2020, 2024]"
    and least: "\<forall>y \<in> set [2000, 2005, 2010, 2015, 2019, 2020, 2024].
        \<bar>r - 2004\<bar> < \<bar>y - 2004\<bar> \<or> (\<bar>r - 2004\<bar> = \<bar>y - 2004\<bar> \<and> y \<le> r)"
    by blast
  from least have "\<bar>r - 2004\<bar> < \<bar>2005 - 2004\<bar> \<or> (\<bar>r - 2004\<bar> = \<bar>2005 - 2004\<bar> \<and> 2005 \<le> r)"
    by simp
  with mem have "r = 2005" by auto
  with r show ?thesis by simp
qed

text \<open>
  C7. A source without a list of years (\<open>None\<close>) or with an empty one keeps the requested year.
\<close>

theorem resolve_year_no_availability:
  "resolve_year y None = Some y \<and> resolve_year y (Some []) = Some y"
  by (simp add: resolve_year_def)

section \<open>Ranges and quantizers\<close>

lemma set_range_up:
  "0 < step \<Longrightarrow> set (range_up start stop step) = {x. start \<le> x \<and> x < stop \<and> step dvd (x - start)}"
proof (induction start stop step rule: range_up.induct)
  case (1 start stop step)
  show ?case
  proof (cases "start < stop")
    case False
    then show ?thesis by (subst range_up.simps) auto
  next
    case True
    with "1.prems" have IH: "set (range_up (start + step) stop step)
        = {x. start + step \<le> x \<and> x < stop \<and> step dvd (x - (start + step))}"
      using "1.IH" by simp
    have "set (range_up start stop step) = insert start (set (range_up (start + step) stop step))"
      using True "1.prems" by (subst range_up.simps) simp
    also have "\<dots> = {x. start \<le> x \<and> x < stop \<and> step dvd (x - start)}"
    proof (intro set_eqI iffI)
      fix x assume "x \<in> insert start (set (range_up (start + step) stop step))"
      then consider "x = start" | "start + step \<le> x" "x < stop" "step dvd (x - (start + step))"
        unfolding IH by auto
      then show "x \<in> {x. start \<le> x \<and> x < stop \<and> step dvd (x - start)}"
      proof cases
        case 1 with True show ?thesis by simp
      next
        case 2
        from 2(3) obtain q where "x - (start + step) = step * q" ..
        then have "x - start = step * (q + 1)" by (simp add: algebra_simps)
        then have "step dvd (x - start)" by (rule dvdI)
        with 2 "1.prems" show ?thesis by simp
      qed
    next
      fix x assume "x \<in> {x. start \<le> x \<and> x < stop \<and> step dvd (x - start)}"
      then have x: "start \<le> x" "x < stop" "step dvd (x - start)" by auto
      show "x \<in> insert start (set (range_up (start + step) stop step))"
      proof (cases "x = start")
        case True then show ?thesis by simp
      next
        case False
        with x have pos: "0 < x - start" by simp
        with x(3) "1.prems" have "step \<le> x - start" by (rule_tac zdvd_imp_le) auto
        moreover from x(3) obtain q where "x - start = step * q" ..
        then have "x - (start + step) = step * (q - 1)" by (simp add: algebra_simps)
        then have "step dvd (x - (start + step))" by (rule dvdI)
        ultimately show ?thesis using x unfolding IH by simp
      qed
    qed
    finally show ?thesis .
  qed
qed

lemma range_down_bounds:
  "x \<in> set (range_down start stop step) \<Longrightarrow> stop < x \<and> x \<le> start"
proof (induction start stop step rule: range_down.induct)
  case (1 start stop step)
  show ?case
  proof (cases "step < 0 \<and> stop < start")
    case False
    with "1.prems" show ?thesis by (subst (asm) range_down.simps) auto
  next
    case True
    with "1.prems" have "x = start \<or> x \<in> set (range_down (start + step) stop step)"
      by (subst (asm) range_down.simps) auto
    then show ?thesis
    proof
      assume "x = start" with True show ?thesis by simp
    next
      assume "x \<in> set (range_down (start + step) stop step)"
      with "1.IH" True have "stop < x \<and> x \<le> start + step" by simp
      with True show ?thesis by simp
    qed
  qed
qed

lemma range_up_nonempty: "0 < step \<Longrightarrow> start < stop \<Longrightarrow> range_up start stop step \<noteq> []"
  by (subst range_up.simps) simp

lemma range_down_nonempty: "step < 0 \<Longrightarrow> stop < start \<Longrightarrow> range_down start stop step \<noteq> []"
  by (subst range_down.simps) simp

lemma py_int_of_int: "py_int (of_int n) = n"
  by (simp add: py_int_def)

lemma floor_aligned: "\<lfloor>(of_int k * 10 :: real) / 10\<rfloor> = k"
  by simp

lemma floor_aligned_plus9: "\<lfloor>((of_int k * 10 :: real) + 9) / 10\<rfloor> = k"
  by (simp add: floor_eq_iff field_simps)

text \<open>
  C6 as stated fails outside the clamp of an axis: the latitude -70 is a multiple of 10 and the
  round-down of FROM\_GLC 2015 returns -60.
\<close>

theorem adjust_aligned_counterexample:
  "adjust_to_nearest_10_2015 (- 70) True True \<noteq> - 70"
  by (simp add: adjust_to_nearest_10_2015_def)

text \<open>
  C6, amended. A multiple of 10 is returned unchanged by each quantizer when it lies on the
  inner side of the clamp used: at or above the lower bound when rounding down
  (\<open>is_min = True\<close>), at or below the upper bound when rounding up (\<open>is_min = False\<close>).
\<close>

theorem adjust_aligned_in_range:
  fixes k :: int and v :: real
  assumes v: "v = of_int k * 10"
  shows "(- 180 \<le> v \<longrightarrow> adjust_to_nearest_10 v True = v)
       \<and> (v \<le> 180 \<longrightarrow> adjust_to_nearest_10 v False = v)
       \<and> (- 60 \<le> v \<longrightarrow> adjust_to_nearest_10_2015 v True True = v)
       \<and> (v \<le> 80 \<longrightarrow> adjust_to_nearest_10_2015 v True False = v)
       \<and> (- 180 \<le> v \<longrightarrow> adjust_to_nearest_10_2015 v False True = v)
       \<and> (v \<le> 180 \<longrightarrow> adjust_to_nearest_10_2015 v False False = v)
       \<and> (- 50 \<le> v \<longrightarrow> adjust_to_nearest_10_treecover v True True = v)
       \<and> (v \<le> 80 \<longrightarrow> adjust_to_nearest_10_treecover v True False = v)
       \<and> (- 180 \<le> v \<longrightarrow> adjust_to_nearest_10_treecover v False True = v)
       \<and> (v \<le> 180 \<longrightarrow> adjust_to_nearest_10_treecover v False False = v)"
proof -
  have down: "of_int \<lfloor>v / 10\<rfloor> * 10 = v"
    unfolding v floor_aligned ..
  have up: "of_int \<lfloor>(v + 9) / 10\<rfloor> * 10 = v"
    unfolding v floor_aligned_plus9 ..
  show ?thesis
    unfolding adjust_to_nearest_10_def adjust_to_nearest_10_2015_def
      adjust_to_nearest_10_treecover_def down up
    by simp
qed

theorem adjust_aligned_in_range_witness:
  "adjust_to_nearest_10 30 True = 30 \<and> adjust_to_nearest_10 30 False = 30
   \<and> adjust_to_nearest_10_2015 (- 60) True True = - 60
   \<and> adjust_to_nearest_10_2015 80 True False = 80
   \<and> adjust_to_nearest_10_treecover (- 50) True True = - 50
   \<and> adjust_to_nearest_10_treecover 180 False False = 180"
proof -
  have a: "(30::real) = of_int 3 * 10" and b: "(- 60::real) = of_int (- 6) * 10"
    and c: "(80::real) = of_int 8 * 10" and d: "(- 50::real) = of_int (- 5) * 10"
    and e: "(180::real) = of_int 18 * 10"
    by simp_all
  from adjust_aligned_in_range [OF a] adjust_aligned_in_range [OF b]
    adjust_aligned_in_range [OF c] adjust_aligned_in_range [OF d] adjust_aligned_in_range [OF e]
  show ?thesis by simp
qed

section \<open>GLC\_FCS30D\_UNOFFICIAL: the inclusive longitude range\<close>

lemma floor10_mono: "(a::real) \<le> b \<Longrightarrow> \<lfloor>a / 10\<rfloor> \<le> \<lfloor>b / 10\<rfloor>"
  by (rule floor_mono) simp

lemma floor10_lower: "(of_int c * 10 :: real) \<le> v \<Longrightarrow> c \<le> \<lfloor>v / 10\<rfloor>"
  by (simp add: le_floor_iff field_simps)

lemma floor10_upper: "v + 9 < (of_int c * 10 + 10 :: real) \<Longrightarrow> \<lfloor>(v + 9) / 10\<rfloor> \<le> c"
  by (simp add: floor_le_iff field_simps)

lemma quantized_lower:
  assumes "(of_int c * 10 :: real) \<le> v"
  shows "max (of_int c * 10) (of_int \<lfloor>v / 10\<rfloor> * 10 :: real) = of_int (\<lfloor>v / 10\<rfloor> * 10)"
proof -
  from assms have "c \<le> \<lfloor>v / 10\<rfloor>" by (rule floor10_lower)
  then have "(of_int c :: real) \<le> of_int \<lfloor>v / 10\<rfloor>" by simp
  then show ?thesis by simp
qed

lemma quantized_upper:
  assumes "v \<le> (of_int c * 10 :: real)"
  shows "min (of_int c * 10) (of_int \<lfloor>(v + 9) / 10\<rfloor> * 10 :: real) = of_int (\<lfloor>(v + 9) / 10\<rfloor> * 10)"
proof -
  from assms have "v + 9 < of_int c * 10 + 10" by simp
  then have "\<lfloor>(v + 9) / 10\<rfloor> \<le> c" by (rule floor10_upper)
  then have "(of_int \<lfloor>(v + 9) / 10\<rfloor> :: real) \<le> of_int c" by simp
  then show ?thesis by simp
qed

lemma py_int_scaled: "py_int (of_int n * 10) = n * 10"
  using py_int_of_int [of "n * 10"] by simp

lemma glc_lon_min:
  "- 180 \<le> v \<Longrightarrow> py_int (adjust_to_nearest_10 v True) = \<lfloor>v / 10\<rfloor> * 10"
  using quantized_lower [of "- 18" v] by (simp add: adjust_to_nearest_10_def py_int_scaled)

lemma glc_lon_max:
  "v \<le> 180 \<Longrightarrow> py_int (adjust_to_nearest_10 v False) = \<lfloor>(v + 9) / 10\<rfloor> * 10"
  using quantized_upper [of v 18] by (simp add: adjust_to_nearest_10_def py_int_scaled)

text \<open>
  C10. For a box with \<open>-180 \<le> min_lon \<le> max_lon \<le> 180\<close> and any latitudes,
  \<open>get_links_glc_fcs30d_unofficial\<close> yields at least one link, also when \<open>min_lon = max_lon\<close>;
  and when \<open>max_lon\<close> is a multiple of 10, the link of the cell that starts at \<open>max_lon\<close> is
  among them, since the range ends at \<open>lon_max + 1\<close>.
\<close>

theorem glc_fcs30d_unofficial_nonempty:
  assumes "- 180 \<le> min_lon" "min_lon \<le> max_lon" "max_lon \<le> 180"
  shows "get_links_glc_fcs30d_unofficial min_lat max_lat min_lon max_lon \<noteq> []
       \<and> (\<forall>k. max_lon = of_int (k * 10) \<longrightarrow>
              glc_fcs30d_link (k * 10)
                \<in> set (get_links_glc_fcs30d_unofficial min_lat max_lat min_lon max_lon))"
proof -
  let ?a = "\<lfloor>min_lon / 10\<rfloor>" and ?b = "\<lfloor>(max_lon + 9) / 10\<rfloor>"
  from assms have lo: "py_int (adjust_to_nearest_10 min_lon True) = ?a * 10"
    by (intro glc_lon_min) simp
  from assms have hi: "py_int (adjust_to_nearest_10 max_lon False) = ?b * 10"
    by (intro glc_lon_max) simp
  have links: "get_links_glc_fcs30d_unofficial min_lat max_lat min_lon max_lon
      = map glc_fcs30d_link (range_up (?a * 10) (?b * 10 + 1) 10)"
    by (simp add: get_links_glc_fcs30d_unofficial_def lo hi py_range_def)
  from assms have "min_lon \<le> max_lon + 9" by simp
  then have ab: "?a \<le> ?b" by (rule floor10_mono)
  then have "range_up (?a * 10) (?b * 10 + 1) 10 \<noteq> []"
    by (intro range_up_nonempty) simp_all
  with links have nonempty: "get_links_glc_fcs30d_unofficial min_lat max_lat min_lon max_lon \<noteq> []"
    by simp
  have cell: "glc_fcs30d_link (k * 10)
      \<in> set (get_links_glc_fcs30d_unofficial min_lat max_lat min_lon max_lon)"
    if k: "max_lon = of_int (k * 10)" for k
  proof -
    have "\<lfloor>(max_lon + 9) / 10\<rfloor> = k"
      unfolding k using floor_aligned_plus9 [of k] by simp
    with ab have "?a \<le> k" and b: "?b = k" by simp_all
    then have "k * 10 \<in> set (range_up (?a * 10) (?b * 10 + 1) 10)"
      by (simp add: set_range_up)
    then show ?thesis unfolding links by simp
  qed
  from nonempty cell show ?thesis by blast
qed

theorem glc_fcs30d_unofficial_nonempty_witness:
  "get_links_glc_fcs30d_unofficial 45 46 20 20 \<noteq> []
   \<and> ''https://zenodo.org/records/8239305/files/GLC_FCS30D_19852022maps_E20-E25.zip?download=1''
        \<in> set (get_links_glc_fcs30d_unofficial 45 46 20 20)"
proof -
  have h: "- 180 \<le> (20::real)" "(20::real) \<le> 20" "(20::real) \<le> 180" by simp_all
  have k: "(20::real) = of_int (2 * 10)" by simp
  have l: "glc_fcs30d_link (2 * 10)
      = ''https://zenodo.org/records/8239305/files/GLC_FCS30D_19852022maps_E20-E25.zip?download=1''"
    by (simp add: glc_fcs30d_link_def ew_label_def str_nat.simps digit_char_def)
  from glc_fcs30d_unofficial_nonempty [OF h, of 45 46] k l show ?thesis by metis
qed

section \<open>GFC\_TreeCover2000: coverage\<close>

lemma treecover_lat_min:
  "- 50 \<le> v \<Longrightarrow> py_int (adjust_to_nearest_10_treecover v True True) = \<lfloor>v / 10\<rfloor> * 10"
  using quantized_lower [of "- 5" v] by (simp add: adjust_to_nearest_10_treecover_def py_int_scaled)

lemma treecover_lat_max:
  "v \<le> 80 \<Longrightarrow> py_int (adjust_to_nearest_10_treecover v True False) = \<lfloor>(v + 9) / 10\<rfloor> * 10"
  using quantized_upper [of v 8] by (simp add: adjust_to_nearest_10_treecover_def py_int_scaled)

lemma treecover_lon_min:
  "- 180 \<le> v \<Longrightarrow> py_int (adjust_to_nearest_10_treecover v False True) = \<lfloor>v / 10\<rfloor> * 10"
  using quantized_lower [of "- 18" v] by (simp add: adjust_to_nearest_10_treecover_def py_int_scaled)

lemma treecover_lon_max:
  "v \<le> 180 \<Longrightarrow> py_int (adjust_to_nearest_10_treecover v False False) = \<lfloor>(v + 9) / 10\<rfloor> * 10"
  using quantized_upper [of v 18] by (simp add: adjust_to_nearest_10_treecover_def py_int_scaled)

lemma one_degree_spans_cell:
  assumes "(a::real) + 1 \<le> b"
  shows "\<lfloor>a / 10\<rfloor> < \<lfloor>(b + 9) / 10\<rfloor>"
proof -
  from assms have "a / 10 + 1 \<le> (b + 9) / 10" by simp
  then have "\<lfloor>a / 10 + 1\<rfloor> \<le> \<lfloor>(b + 9) / 10\<rfloor>" by (rule floor_mono)
  then show ?thesis by simp
qed

lemma range_up_empty_iff: "range_up start stop step = [] \<longleftrightarrow> \<not> (0 < step \<and> start < stop)"
  by (subst range_up.simps) simp

lemma range_down_empty_iff: "range_down start stop step = [] \<longleftrightarrow> \<not> (step < 0 \<and> stop < start)"
  by (subst range_down.simps) simp

text \<open>
  Inside the coverage the resolver yields a link exactly when the round-down of the minimum is
  below the round-up of the maximum on both axes; a box of at least one degree on each axis
  always does.
\<close>

lemma treecover_links_nonempty_iff:
  assumes "- 50 \<le> min_lat" "max_lat \<le> 80" "- 180 \<le> min_lon" "max_lon \<le> 180"
  shows "get_links_gfc_treecover2000 min_lat max_lat min_lon max_lon \<noteq> []
     \<longleftrightarrow> \<lfloor>min_lat / 10\<rfloor> < \<lfloor>(max_lat + 9) / 10\<rfloor> \<and> \<lfloor>min_lon / 10\<rfloor> < \<lfloor>(max_lon + 9) / 10\<rfloor>"
proof -
  let ?lat_lo = "\<lfloor>min_lat / 10\<rfloor> * 10" and ?lat_hi = "\<lfloor>(max_lat + 9) / 10\<rfloor> * 10"
  let ?lon_lo = "\<lfloor>min_lon / 10\<rfloor> * 10" and ?lon_hi = "\<lfloor>(max_lon + 9) / 10\<rfloor> * 10"
  from assms have q:
    "py_int (adjust_to_nearest_10_treecover min_lat True True) = ?lat_lo"
    "py_int (adjust_to_nearest_10_treecover max_lat True False) = ?lat_hi"
    "py_int (adjust_to_nearest_10_treecover min_lon False True) = ?lon_lo"
    "py_int (adjust_to_nearest_10_treecover max_lon False False) = ?lon_hi"
    by (simp_all add: treecover_lat_min treecover_lat_max treecover_lon_min treecover_lon_max)
  have links: "get_links_gfc_treecover2000 min_lat max_lat min_lon max_lon
      = concat (map (\<lambda>lat. map (\<lambda>lon. treecover_link lat lon) (range_up ?lon_lo ?lon_hi 10))
                    (range_down ?lat_hi ?lat_lo (- 10)))"
    by (simp add: get_links_gfc_treecover2000_def q py_range_def)
  have "get_links_gfc_treecover2000 min_lat max_lat min_lon max_lon \<noteq> []
      \<longleftrightarrow> range_down ?lat_hi ?lat_lo (- 10) \<noteq> [] \<and> range_up ?lon_lo ?lon_hi 10 \<noteq> []"
    unfolding links by (cases "range_down ?lat_hi ?lat_lo (- 10)") auto
  then show ?thesis by (simp add: range_up_empty_iff range_down_empty_iff)
qed

lemma treecover_one_degree_nonempty:
  assumes "- 50 \<le> min_lat" "min_lat + 1 \<le> max_lat" "max_lat \<le> 80"
    and "- 180 \<le> min_lon" "min_lon + 1 \<le> max_lon" "max_lon \<le> 180"
  shows "get_links_gfc_treecover2000 min_lat max_lat min_lon max_lon \<noteq> []"
  using assms one_degree_spans_cell [of min_lat max_lat] one_degree_spans_cell [of min_lon max_lon]
  by (simp add: treecover_links_nonempty_iff)

text \<open>The ranges exclude their stop value: a box that is one point on grid lines gets no link.\<close>

lemma treecover_degenerate_box_empty:
  "get_links_gfc_treecover2000 10 10 20 20 = []"
  by (simp add: get_links_gfc_treecover2000_def adjust_to_nearest_10_treecover_def
      py_int_def py_range_def range_up.simps range_down.simps)

text \<open>
  C8 asks for at least one link for every box inside the coverage. The round-up
  \<^verbatim>\<open>((value + 9) // 10) * 10\<close> is a ceiling on integers only: it takes 10.75 to 10, below the
  value, so the box \<open>10.25..10.75 \<times> 20.25..20.75\<close>, which lies inside the tile from 10 to 20
  north and 20 to 30 east, gets no link.
\<close>

theorem treecover_fractional_box_no_link:
  "adjust_to_nearest_10_treecover 10.75 True False = 10
   \<and> adjust_to_nearest_10_treecover 20.75 False False = 20
   \<and> get_links_gfc_treecover2000 10.25 10.75 20.25 20.75 = []"
  by (simp add: get_links_gfc_treecover2000_def adjust_to_nearest_10_treecover_def
      py_int_def py_range_def range_up.simps range_down.simps)

section \<open>GSW: the left decade value\<close>

text \<open>
  C5 asks for \<open>10 * floor (v / 10)\<close> at every value. \<^verbatim>\<open>int(val)\<close> truncates toward zero before
  the rounding, so at -0.5 the code returns 0 where the floor gives -10.
\<close>

theorem get_left_decval_negative_fraction:
  "get_left_decval (- 0.5) = 0 \<and> 10 * \<lfloor>(- 0.5 :: real) / 10\<rfloor> = - 10"
proof -
  have "\<lceil>- 0.5 :: real\<rceil> = 0" by (simp add: ceiling_eq_iff)
  then have "get_left_decval (- 0.5) = 0" by (simp add: get_left_decval_def py_int_def)
  moreover have "\<lfloor>(- 0.5 :: real) / 10\<rfloor> = - 1" by (simp add: floor_eq_iff)
  ultimately show ?thesis by simp
qed

text \<open>On an int, and on every value that is not negative, the code is the floor.\<close>

lemma decval_of_int:
  fixes n :: int
  shows "(let val = n in if val mod 10 = 0 then val
         else if val > 0 then \<bar>val\<bar> div 10 * 10
         else - (1 + \<bar>val\<bar> div 10) * 10) = 10 * (n div 10)"
proof -
  consider "n mod 10 = 0" | "n mod 10 \<noteq> 0" "0 < n" | "n mod 10 \<noteq> 0" "n \<le> 0" by linarith
  then show ?thesis
  proof cases
    case 1
    then have "10 * (n div 10) = n" by (simp add: mod_0_imp_dvd)
    with 1 show ?thesis by simp
  next
    case 2
    then show ?thesis by simp
  next
    case 3
    then have "(- n) div 10 = - (n div 10) - 1" by (simp add: zdiv_zminus1_eq_if)
    with 3 show ?thesis by simp
  qed
qed

lemma get_left_decval_int: "get_left_decval (of_int n) = 10 * \<lfloor>(of_int n :: real) / 10\<rfloor>"
proof -
  have "\<lfloor>(of_int n :: real) / 10\<rfloor> = n div 10"
    using floor_divide_of_int_eq [of n 10, where ?'a = real] by simp
  then show ?thesis
    unfolding get_left_decval_def py_int_of_int decval_of_int by simp
qed

lemma get_left_decval_nonneg:
  assumes "0 \<le> v"
  shows "get_left_decval v = 10 * \<lfloor>v / 10\<rfloor>"
proof -
  from assms have "py_int v = \<lfloor>v\<rfloor>" by (simp add: py_int_def)
  moreover have "\<lfloor>v / 10\<rfloor> = \<lfloor>v\<rfloor> div 10"
    using floor_divide_real_eq_div [of 10 v] by simp
  ultimately show ?thesis
    unfolding get_left_decval_def decval_of_int by simp
qed

section \<open>FROM\_GLC 2015: the tile label\<close>

lemma digit_char_0: "digit_char 0 = CHR ''0''"
  by (simp add: digit_char_def)

lemma str_nat_1: "n < 10 \<Longrightarrow> str_nat n = [digit_char n]"
  by (subst str_nat.simps) simp

lemma str_nat_2: "10 \<le> n \<Longrightarrow> n < 100 \<Longrightarrow> str_nat n = [digit_char (n div 10), digit_char (n mod 10)]"
  by (subst str_nat.simps) (simp add: str_nat_1)

lemma str_nat_3:
  "100 \<le> n \<Longrightarrow> n < 1000 \<Longrightarrow>
     str_nat n = [digit_char (n div 100), digit_char (n div 10 mod 10), digit_char (n mod 10)]"
  by (subst str_nat.simps) (simp add: str_nat_2 div_mult2_eq [symmetric])

lemma pad2:
  assumes "n < 100"
  shows "pad_left 2 CHR ''0'' (str_nat n) = [digit_char (n div 10), digit_char (n mod 10)]"
proof (cases "n < 10")
  case True
  then show ?thesis by (simp add: pad_left_def str_nat_1 digit_char_0)
next
  case False
  with assms show ?thesis by (simp add: pad_left_def str_nat_2)
qed

lemma pad3:
  assumes "n < 1000"
  shows "pad_left 3 CHR ''0'' (str_nat n)
           = [digit_char (n div 100), digit_char (n div 10 mod 10), digit_char (n mod 10)]"
proof -
  consider "n < 10" | "10 \<le> n" "n < 100" | "100 \<le> n" by linarith
  then show ?thesis
  proof cases
    case 1
    then show ?thesis by (simp add: pad_left_def str_nat_1 digit_char_0 numeral_2_eq_2)
  next
    case 2
    then show ?thesis by (simp add: pad_left_def str_nat_2 digit_char_0)
  next
    case 3
    with assms show ?thesis by (simp add: pad_left_def str_nat_3)
  qed
qed


lemma digits3: "100 * (n div 100) + 10 * (n div 10 mod 10) + n mod 10 = (n::nat)"
proof -
  have a: "n = 10 * (n div 10) + n mod 10" by simp
  have b: "n div 10 = 10 * (n div 10 div 10) + n div 10 mod 10" by simp
  have c: "n div 10 div 10 = n div 100" by (simp add: div_mult2_eq [symmetric])
  from a b c show ?thesis by linarith
qed

lemma digits2: "10 * (n div 10) + n mod 10 = (n::nat)"
  by simp

lemma py_int_le: "x \<le> of_int c \<Longrightarrow> 0 \<le> c \<Longrightarrow> py_int x \<le> c"
  by (auto simp: py_int_def floor_le_iff ceiling_le_iff)

lemma py_int_ge: "of_int c \<le> x \<Longrightarrow> c \<le> 0 \<Longrightarrow> c \<le> py_int x"
  by (auto simp: py_int_def le_floor_iff le_ceiling_iff)

lemma tile_corners_2015_bounds:
  assumes "(lat, lon) \<in> set (tile_corners_2015 min_lat max_lat min_lon max_lon)"
  shows "- 60 < lat \<and> lat \<le> 80 \<and> - 180 \<le> lon \<and> lon < 180"
proof -
  let ?lat_min = "adjust_to_nearest_10_2015 min_lat True True"
  let ?lat_max = "adjust_to_nearest_10_2015 max_lat True False"
  let ?lon_min = "adjust_to_nearest_10_2015 min_lon False True"
  let ?lon_max = "adjust_to_nearest_10_2015 max_lon False False"
  from assms have lat: "lat \<in> set (range_down (py_int ?lat_max) (py_int ?lat_min) (- 10))"
    and lon: "lon \<in> set (range_up (py_int ?lon_min) (py_int ?lon_max) 10)"
    by (auto simp: tile_corners_2015_def py_range_def)
  have "?lat_max \<le> of_int 80" by (simp add: adjust_to_nearest_10_2015_def)
  then have a: "py_int ?lat_max \<le> 80" by (rule py_int_le) simp
  have "of_int (- 60) \<le> ?lat_min" by (simp add: adjust_to_nearest_10_2015_def)
  then have b: "- 60 \<le> py_int ?lat_min" by (rule py_int_ge) simp
  have "?lon_max \<le> of_int 180" by (simp add: adjust_to_nearest_10_2015_def)
  then have c: "py_int ?lon_max \<le> 180" by (rule py_int_le) simp
  have "of_int (- 180) \<le> ?lon_min" by (simp add: adjust_to_nearest_10_2015_def)
  then have d: "- 180 \<le> py_int ?lon_min" by (rule py_int_ge) simp
  from range_down_bounds [OF lat] a b have "- 60 < lat \<and> lat \<le> 80" by simp
  moreover from lon have "py_int ?lon_min \<le> lon \<and> lon < py_int ?lon_max"
    by (simp add: set_range_up)
  with c d have "- 180 \<le> lon \<and> lon < 180" by simp
  ultimately show ?thesis by simp
qed

text \<open>
  C4 as stated fails: the hemisphere letters follow the digits, so the name looked up for
  \<open>lon = 30\<close>, \<open>lat = 10\<close> is not \<^verbatim>\<open>E030N10.tif\<close>.
\<close>

theorem tile_name_2015_prefix_counterexample:
  "tile_name_2015 10 30 \<noteq> ''E030N10.tif''"
  by (simp add: tile_name_2015_def lon_label_def lat_label_def pad2 pad3 digit_char_def)

text \<open>
  C4, amended. For every grid corner enumerated by the FROM\_GLC 2015 resolver, the name looked
  up in the catalog is three decimal digits of \<open>|lon|\<close>, the letter E or W, two decimal digits
  of \<open>|lat|\<close>, the letter N or S, and \<^verbatim>\<open>.tif\<close>; for \<open>lon = 30\<close>, \<open>lat = 10\<close> it is
  \<^verbatim>\<open>030E10N.tif\<close>.
\<close>

theorem tile_name_2015_format:
  assumes "(lat, lon) \<in> set (tile_corners_2015 min_lat max_lat min_lon max_lon)"
  shows "(\<exists>a b c d e. a < 10 \<and> b < 10 \<and> c < 10 \<and> d < 10 \<and> e < 10
            \<and> int (100 * a + 10 * b + c) = \<bar>lon\<bar> \<and> int (10 * d + e) = \<bar>lat\<bar>
            \<and> tile_name_2015 lat lon
                = [digit_char a, digit_char b, digit_char c, if lon \<ge> 0 then CHR ''E'' else CHR ''W'',
                   digit_char d, digit_char e, if lat \<ge> 0 then CHR ''N'' else CHR ''S''] @ ''.tif'')
         \<and> tile_name_2015 10 30 = ''030E10N.tif''"
proof -
  from assms have bounds: "- 60 < lat \<and> lat \<le> 80 \<and> - 180 \<le> lon \<and> lon < 180"
    by (rule tile_corners_2015_bounds)
  let ?n = "nat \<bar>lon\<bar>" and ?m = "nat \<bar>lat\<bar>"
  from bounds have n: "?n < 1000" and m: "?m < 100" by linarith+
  let ?a = "?n div 100" and ?b = "?n div 10 mod 10" and ?c = "?n mod 10"
  let ?d = "?m div 10" and ?e = "?m mod 10"
  from n m have small: "?a < 10" "?b < 10" "?c < 10" "?d < 10" "?e < 10" by simp_all
  have "100 * ?a + 10 * ?b + ?c = ?n" by (rule digits3)
  then have lon_val: "int (100 * ?a + 10 * ?b + ?c) = \<bar>lon\<bar>" by simp
  have "10 * ?d + ?e = ?m" by (rule digits2)
  then have lat_val: "int (10 * ?d + ?e) = \<bar>lat\<bar>" by simp
  have name: "tile_name_2015 lat lon
      = [digit_char ?a, digit_char ?b, digit_char ?c, if lon \<ge> 0 then CHR ''E'' else CHR ''W'',
         digit_char ?d, digit_char ?e, if lat \<ge> 0 then CHR ''N'' else CHR ''S''] @ ''.tif''"
    by (simp add: tile_name_2015_def lon_label_def lat_label_def pad2 [OF m] pad3 [OF n])
  have example: "tile_name_2015 10 30 = ''030E10N.tif''"
    by (simp add: tile_name_2015_def lon_label_def lat_label_def pad2 pad3 digit_char_def)
  from small lon_val lat_val name
  have "\<exists>a b c d e. a < 10 \<and> b < 10 \<and> c < 10 \<and> d < 10 \<and> e < 10
            \<and> int (100 * a + 10 * b + c) = \<bar>lon\<bar> \<and> int (10 * d + e) = \<bar>lat\<bar>
            \<and> tile_name_2015 lat lon
                = [digit_char a, digit_char b, digit_char c, if lon \<ge> 0 then CHR ''E'' else CHR ''W'',
                   digit_char d, digit_char e, if lat \<ge> 0 then CHR ''N'' else CHR ''S''] @ ''.tif''"
    by (intro exI [of _ ?a] exI [of _ ?b] exI [of _ ?c] exI [of _ ?d] exI [of _ ?e] conjI)
  then show ?thesis using example by (rule conjI)
qed

theorem tile_name_2015_format_witness:
  "(10, 30) \<in> set (tile_corners_2015 3.5 16.3 27 43.3)
   \<and> tile_name_2015 10 30 = ''030E10N.tif''"
proof -
  have mem: "(10, 30) \<in> set (tile_corners_2015 3.5 16.3 27 43.3)"
    by (simp add: tile_corners_2015_def adjust_to_nearest_10_2015_def py_int_def py_range_def
        range_up.simps range_down.simps)
  from tile_name_2015_format [OF mem] mem show ?thesis by blast
qed

section \<open>FROM\_GLC 2017: matching and parse failures\<close>

lemma split_on_nonempty: "split_on sep s \<noteq> []"
  by (induction s) (auto split: list.splits)

text \<open>
  \<^verbatim>\<open>link_generator.py\<close>: the links are those of the entries that parse and whose own corner
  \<open>(lat, lon)\<close> is in the box, in catalog order; an entry that does not parse is dropped and
  the entries around it are treated as without it.
\<close>

lemma get_links_from_glc_2017_step:
  "get_links_from_glc_2017 (ele # meta_data) min_lat max_lat min_lon max_lon
     = (if yields_2017 min_lat max_lat min_lon max_lon ele then [link_2017 ele] else [])
       @ get_links_from_glc_2017 meta_data min_lat max_lat min_lon max_lon"
proof (cases "endswith (entry_name ele) ''.tif''")
  case False
  then show ?thesis by (simp add: yields_2017_def)
next
  case tif: True
  show ?thesis
  proof (cases "parse_lat_lon (entry_name ele)")
    case (Inl e)
    with tif show ?thesis by (cases e) (simp_all add: yields_2017_def)
  next
    case (Inr p)
    obtain lat lon where "p = (lat, lon)" by (cases p)
    with Inr tif show ?thesis by (simp add: yields_2017_def in_bbox_def Let_def)
  qed
qed

lemma get_links_from_glc_2017_filter:
  "get_links_from_glc_2017 meta_data min_lat max_lat min_lon max_lon
     = map link_2017 (filter (yields_2017 min_lat max_lat min_lon max_lon) meta_data)"
proof (induction meta_data)
  case Nil
  show ?case by simp
next
  case (Cons ele meta_data)
  show ?case unfolding get_links_from_glc_2017_step Cons.IH by simp
qed

lemma get_links_from_glc_2017_skips_unparsed:
  assumes "parse_lat_lon (entry_name ele) = Inl e"
  shows "get_links_from_glc_2017 (before @ ele # after) min_lat max_lat min_lon max_lon
     = get_links_from_glc_2017 before min_lat max_lat min_lon max_lon
       @ get_links_from_glc_2017 after min_lat max_lat min_lon max_lon"
  using assms by (simp add: get_links_from_glc_2017_filter yields_2017_def)

text \<open>
  \<^verbatim>\<open>2017/Download_FROM_GLC_2017.py\<close>: when no name raises, the links are those of the entries
  with one of the four corners in the box.
\<close>

lemma get_links_for_region_2017_step:
  "get_links_for_region_2017 (ele # meta_data) min_lat max_lat min_lon max_lon =
     (if \<not> endswith (entry_name ele) ''.tif''
      then get_links_for_region_2017 meta_data min_lat max_lat min_lon max_lon
      else (case parse_lat_lon_script (entry_name ele) of
              Inl e \<Rightarrow> ([], Some e)
            | Inr (lat, lon) \<Rightarrow>
                (let (links, err) = get_links_for_region_2017 meta_data min_lat max_lat min_lon max_lon
                 in if four_variants min_lat max_lat min_lon max_lon lat lon
                    then (link_2017 ele # links, err)
                    else (links, err))))"
  unfolding four_variants_def in_bbox_def by (rule get_links_for_region_2017.simps)

lemma get_links_for_region_2017_filter:
  assumes "snd (get_links_for_region_2017 meta_data min_lat max_lat min_lon max_lon) = None"
  shows "fst (get_links_for_region_2017 meta_data min_lat max_lat min_lon max_lon)
     = map link_2017 (filter (yields_2017_script min_lat max_lat min_lon max_lon) meta_data)"
  using assms
proof (induction meta_data)
  case Nil
  show ?case by simp
next
  case (Cons ele meta_data)
  let ?rest = "get_links_for_region_2017 meta_data min_lat max_lat min_lon max_lon"
  show ?case
  proof (cases "endswith (entry_name ele) ''.tif''")
    case False
    then have "\<not> yields_2017_script min_lat max_lat min_lon max_lon ele"
      by (simp add: yields_2017_script_def)
    with False Cons show ?thesis
      unfolding get_links_for_region_2017_step by simp
  next
    case tif: True
    show ?thesis
    proof (cases "parse_lat_lon_script (entry_name ele)")
      case (Inl e)
      with tif Cons.prems show ?thesis
        unfolding get_links_for_region_2017_step by simp
    next
      case (Inr p)
      obtain lat lon where p: "p = (lat, lon)" by (cases p)
      obtain links err where rest: "?rest = (links, err)" by (cases ?rest)
      from Cons.prems tif Inr p rest have "err = None"
        unfolding get_links_for_region_2017_step by (simp split: if_splits)
      with Cons.IH rest have "links
          = map link_2017 (filter (yields_2017_script min_lat max_lat min_lon max_lon) meta_data)"
        by simp
      moreover from tif Inr p
      have "yields_2017_script min_lat max_lat min_lon max_lon ele
          \<longleftrightarrow> four_variants min_lat max_lat min_lon max_lon lat lon"
        by (simp add: yields_2017_script_def)
      ultimately show ?thesis
        using tif Inr p rest unfolding get_links_for_region_2017_step by simp
    qed
  qed
qed

text \<open>
  C1 asks for the link of a tile at \<open>(10, 20)\<close> on the box \<open>11..13 \<times> 21..23\<close>, through the corner
  \<open>(12, 22)\<close>. \<open>get_links_from_glc_2017\<close> of \<^verbatim>\<open>link_generator.py\<close> tests \<open>(lat, lon)\<close> only and
  yields nothing; the stand-alone script yields the link.
\<close>

theorem glc_2017_shifted_tile_missed:
  "parse_lat_lon ''tile_10_20.tif'' = Inr (10, 20)
   \<and> four_variants 11 13 21 23 10 20
   \<and> get_links_from_glc_2017 [\<lparr>entry_id = ''7'', entry_name = ''tile_10_20.tif''\<rparr>] 11 13 21 23 = []"
proof -
  have p: "parse_lat_lon ''tile_10_20.tif'' = Inr (10, 20)"
    by (simp add: parse_lat_lon_def py_int_of_string_def py_strip_def is_py_space_def digit_val_def)
  have v: "four_variants 11 13 21 23 10 20"
    by (simp add: four_variants_def in_bbox_def)
  have "get_links_from_glc_2017 [\<lparr>entry_id = ''7'', entry_name = ''tile_10_20.tif''\<rparr>] 11 13 21 23 = []"
    by (simp add: p endswith_def)
  with p v show ?thesis by simp
qed

lemma glc_2017_script_shifted_tile:
  "get_links_for_region_2017 [\<lparr>entry_id = ''7'', entry_name = ''tile_10_20.tif''\<rparr>] 11 13 21 23
     = ([''https://data-starcloud.pcl.ac.cn/api/en/resourceFile/download/1/7''], None)"
  and "get_links_for_region_2017 [\<lparr>entry_id = ''7'', entry_name = ''tile_10_20.tif''\<rparr>] 15 17 25 27
     = ([], None)"
proof -
  have p: "parse_lat_lon_script ''tile_10_20.tif'' = Inr (10, 20)"
    by (simp add: parse_lat_lon_script_def py_int_of_string_def py_strip_def is_py_space_def digit_val_def)
  show "get_links_for_region_2017 [\<lparr>entry_id = ''7'', entry_name = ''tile_10_20.tif''\<rparr>] 11 13 21 23
     = ([''https://data-starcloud.pcl.ac.cn/api/en/resourceFile/download/1/7''], None)"
    by (simp add: p endswith_def link_2017_def)
  show "get_links_for_region_2017 [\<lparr>entry_id = ''7'', entry_name = ''tile_10_20.tif''\<rparr>] 15 17 25 27
     = ([], None)"
    by (simp add: p endswith_def link_2017_def)
qed

text \<open>
  C9 asks that a \<^verbatim>\<open>.tif\<close> name that does not parse is skipped without an error.
  \<open>get_links_for_region\<close> of the stand-alone script has no \<^verbatim>\<open>try\<close>: the \<open>ValueError\<close> ends the
  generator and the matching tile after it is never reached, where \<open>get_links_from_glc_2017\<close>
  skips the entry and yields that tile.
\<close>

theorem glc_2017_script_parse_failure_raises:
  "endswith ''readme.tif'' ''.tif''
   \<and> parse_lat_lon ''readme.tif'' = Inl ValueError
   \<and> get_links_for_region_2017
        [\<lparr>entry_id = ''1'', entry_name = ''readme.tif''\<rparr>,
         \<lparr>entry_id = ''7'', entry_name = ''tile_12_22.tif''\<rparr>] 11 13 21 23
       = ([], Some ValueError)
   \<and> get_links_from_glc_2017
        [\<lparr>entry_id = ''1'', entry_name = ''readme.tif''\<rparr>,
         \<lparr>entry_id = ''7'', entry_name = ''tile_12_22.tif''\<rparr>] 11 13 21 23
       = [''https://data-starcloud.pcl.ac.cn/api/en/resourceFile/download/1/7'']"
proof -
  have e: "endswith ''readme.tif'' ''.tif''" "endswith ''tile_12_22.tif'' ''.tif''"
    by (simp_all add: endswith_def)
  have p: "parse_lat_lon ''readme.tif'' = Inl ValueError"
    by (simp add: parse_lat_lon_def)
  have q: "parse_lat_lon_script ''readme.tif'' = Inl ValueError"
    by (simp add: parse_lat_lon_script_def)
  have r: "parse_lat_lon ''tile_12_22.tif'' = Inr (12, 22)"
    by (simp add: parse_lat_lon_def py_int_of_string_def py_strip_def is_py_space_def digit_val_def)
  have s: "get_links_for_region_2017
        [\<lparr>entry_id = ''1'', entry_name = ''readme.tif''\<rparr>,
         \<lparr>entry_id = ''7'', entry_name = ''tile_12_22.tif''\<rparr>] 11 13 21 23
       = ([], Some ValueError)"
    by (simp add: e q)
  have g: "get_links_from_glc_2017
        [\<lparr>entry_id = ''1'', entry_name = ''readme.tif''\<rparr>,
         \<lparr>entry_id = ''7'', entry_name = ''tile_12_22.tif''\<rparr>] 11 13 21 23
       = [''https://data-starcloud.pcl.ac.cn/api/en/resourceFile/download/1/7'']"
    by (simp add: e p r link_2017_def)
  from e(1) p s g show ?thesis by simp
qed

section \<open>GFC\_FCS30D: region years\<close>

text \<open>Boxes that only touch intersect: here the area of interest ends where the region begins.\<close>

lemma box_intersects_touching:
  "box_intersects \<lparr>box_min_lat = 0, box_max_lat = 5, box_min_lon = 0, box_max_lon = 9.9\<rparr> africa_static"
  by (simp add: box_intersects_def africa_static_def)



lemma gfc_fcs30d_scenario_2010:
  "get_links_gfc_fcs30d 2010 3.5 16.3 27 43.3
     = ([''https://zenodo.org/records/10068479/files/GWL_FCS30_2010.zip?download=1''], [])"
proof -
  have "str_nat 2010 = ''2010''"
    by (simp add: str_nat.simps digit_char_def)
  then show ?thesis
    by (simp add: get_links_gfc_fcs30d_def global_coverage_years_def gfc_fcs30d_link_def str_int_def)
qed




end
